theory Spec2Isabelle
  imports Complex_Main
begin

section \<open>The Mandelbrot zoom renderer (mandelbrot\_render.py)\<close>

text \<open>
  The embedding follows \<^verbatim>\<open>src/mandelbrot_render.py\<close> function by function.
  Python's unbounded integers are \<^typ>\<open>int\<close>. Python's floats are read as exact
  reals and its complex numbers as \<^typ>\<open>complex\<close>: there is no rounding, no overflow
  and no not-a-number in the model, and an integer becomes a float without loss. Under this reading \<^verbatim>\<open>abs(final_z)\<close> cannot raise
  and \<^verbatim>\<open>np.isnan(abs_z)\<close> is always false, so the two \<^verbatim>\<open>return 0\<close> branches of
  lines 43--46 of \<^verbatim>\<open>get_colour\<close> are unreachable and have no counterpart below.
  Every \<^verbatim>\<open>raise\<close> and every division by zero of the source is a value \<open>Inl e\<close>.
\<close>

subsection \<open>Errors\<close>

datatype error = ValueError | ZeroDivisionError

text \<open>True division \<^verbatim>\<open>a / b\<close> of Python numbers raises on a zero divisor.\<close>

definition py_div :: "real \<Rightarrow> real \<Rightarrow> error + real" where
  "py_div a b = (if b = 0 then Inl ZeroDivisionError else Inr (a / b))"

definition py_cdiv :: "complex \<Rightarrow> complex \<Rightarrow> error + complex" where
  "py_cdiv a b = (if b = 0 then Inl ZeroDivisionError else Inr (a / b))"

subsection \<open>Iteration rule and escape-time evaluation\<close>

text \<open>An iteration rule is called as \<^verbatim>\<open>recursion_func(c=c, z=z)\<close>.\<close>

type_synonym iteration_rule = "complex \<Rightarrow> complex \<Rightarrow> complex"

definition mandlebrot_f :: iteration_rule where
  "mandlebrot_f c z = z * z + c"

text \<open>The loop \<^verbatim>\<open>for iter_num in range(N): z = recursion_func(c=c, z=z)\<close>.\<close>

fun iterate_rule :: "iteration_rule \<Rightarrow> complex \<Rightarrow> nat \<Rightarrow> complex \<Rightarrow> complex" where
  "iterate_rule recursion_func c 0 z = z"
| "iterate_rule recursion_func c (Suc n) z =
     iterate_rule recursion_func c n (recursion_func c z)"

definition recursion :: "complex \<Rightarrow> int \<Rightarrow> iteration_rule \<Rightarrow> error + complex" where
  "recursion c N recursion_func =
     (if N \<le> 0 then Inl ValueError
      else Inr (iterate_rule recursion_func c (nat N) 0))"

definition get_colour :: "complex \<Rightarrow> int \<Rightarrow> iteration_rule \<Rightarrow> error + real" where
  "get_colour c N recursion_func =
     (let abs_c = cmod c in
      if abs_c \<ge> 2 then Inr 0
      else
        (case recursion c N recursion_func of
           Inl e \<Rightarrow> Inl e
         | Inr final_z \<Rightarrow>
             (let abs_z = cmod final_z;
                  cut_off = 2
              in if abs_z \<le> cut_off then Inr 1
                 else (let scale = 0.01
                       in Inr (exp (- scale * (abs_z - cut_off)))))))"

subsection \<open>Viewport mapping\<close>

text \<open>
  \<^verbatim>\<open>w = 2 * (2/(min(res_x,res_y))) * 2/(2*(step+1))\<close> holds two true divisions, evaluated
  left to right: first \<^verbatim>\<open>2/min(res_x,res_y)\<close>, then the division by \<^verbatim>\<open>2*(step+1)\<close>.
\<close>

definition step_pixel_to_complex_coords ::
  "int \<Rightarrow> int \<Rightarrow> int \<Rightarrow> int \<Rightarrow> complex \<Rightarrow> int \<Rightarrow> error + complex" where
  "step_pixel_to_complex_coords u v res_x res_y focus step =
     (case py_div 2 (real_of_int (min res_x res_y)) of
        Inl e \<Rightarrow> Inl e
      | Inr q \<Rightarrow>
          (case py_div (2 * q * 2) (real_of_int (2 * (step + 1))) of
             Inl e \<Rightarrow> Inl e
           | Inr w \<Rightarrow>
               (let top_left_x = Re focus + - w * (real_of_int res_x / 2) + w / 2;
                    top_left_y = Im focus + w * (real_of_int res_y / 2) - w / 2;
                    x = top_left_x + real_of_int u * w;
                    y = top_left_y - real_of_int v * w
                in Inr (Complex x y))))"


subsection \<open>Frame generation\<close>

text \<open>
  A \<^verbatim>\<open>for\<close> loop that fills one cell per index: the cells are computed in index order
  and the first raise leaves the loop.
\<close>

fun for_each :: "('a \<Rightarrow> error + 'b) \<Rightarrow> 'a list \<Rightarrow> error + 'b list" where
  "for_each body [] = Inr []"
| "for_each body (i # idxs) =
     (case body i of
        Inl e \<Rightarrow> Inl e
      | Inr y \<Rightarrow>
          (case for_each body idxs of
             Inl e \<Rightarrow> Inl e
           | Inr ys \<Rightarrow> Inr (y # ys)))"

text \<open>
  The image matrix is a list of \<^verbatim>\<open>res_x\<close> rows of \<^verbatim>\<open>res_y\<close> cells, row \<open>u\<close> holding
  \<^verbatim>\<open>image_matrix[u, v]\<close> for \<open>v = 0, \<dots>, res_y - 1\<close>. \<^verbatim>\<open>np.zeros\<close> raises
  \<^verbatim>\<open>ValueError\<close> on a negative dimension; \<^verbatim>\<open>range\<close> of a non-positive number is empty.
\<close>

definition step_get_image_vals ::
  "int \<Rightarrow> int \<Rightarrow> int \<Rightarrow> complex \<Rightarrow> int \<Rightarrow> iteration_rule \<Rightarrow> error + real list list" where
  "step_get_image_vals step res_x res_y focus N recursion_func =
     (if res_x < 0 \<or> res_y < 0 then Inl ValueError
      else
        for_each
          (\<lambda>u. for_each
             (\<lambda>v. case step_pixel_to_complex_coords u v res_x res_y focus step of
                     Inl e \<Rightarrow> Inl e
                   | Inr c \<Rightarrow> get_colour c N recursion_func)
             [0..res_y - 1])
          [0..res_x - 1])"

subsection \<open>Zoom sequencing\<close>

text \<open>
  \<^verbatim>\<open>zoom_in_step\<close> draws on an axes object; the model returns the image matrix that it
  hands to \<^verbatim>\<open>ax.matshow\<close> (before the transposition) and leaves the progress line and
  the drawing out. \<^verbatim>\<open>focus * step/recentering_steps\<close> is
  \<^verbatim>\<open>(focus * step) / recentering_steps\<close>, a complex division.
\<close>

definition zoom_in_step ::
  "int \<Rightarrow> complex \<Rightarrow> int \<Rightarrow> int \<Rightarrow> int \<Rightarrow> int \<Rightarrow> int \<Rightarrow> error + real list list" where
  "zoom_in_step step focus res_x res_y num_frames recentering_steps N =
     (if res_x mod 2 = 1 \<or> res_y mod 2 = 1 \<or> res_x \<le> 2 \<or> res_y \<le> 2 then Inl ValueError
      else if step < 0 then Inl ValueError
      else if step \<le> recentering_steps then
        (case py_cdiv (focus * of_int step) (of_int recentering_steps) of
           Inl e \<Rightarrow> Inl e
         | Inr current_focus \<Rightarrow>
             step_get_image_vals step res_x res_y current_focus N mandlebrot_f)
      else step_get_image_vals step res_x res_y focus N mandlebrot_f)"

section \<open>Auxiliary facts\<close>

subsection \<open>Escape-time evaluation\<close>

lemma cmod_less_2_iff: "cmod c < 2 \<longleftrightarrow> (Re c)\<^sup>2 + (Im c)\<^sup>2 < 4"
proof -
  have "cmod c < 2 \<longleftrightarrow> sqrt ((Re c)\<^sup>2 + (Im c)\<^sup>2) < sqrt 4"
    by (simp add: cmod_def)
  then show ?thesis by (simp only: real_sqrt_less_iff)
qed

lemma recursion_nonpositive: "N \<le> 0 \<Longrightarrow> recursion c N f = Inl ValueError"
  by (simp add: recursion_def)

lemma recursion_once: "recursion c 1 mandlebrot_f = Inr c"
  by (simp add: recursion_def mandlebrot_f_def)

lemma get_colour_early_exit: "2 \<le> cmod c \<Longrightarrow> get_colour c N f = Inr 0"
  by (simp add: get_colour_def)

lemma get_colour_once:
  "get_colour c 1 mandlebrot_f = Inr (if (Re c)\<^sup>2 + (Im c)\<^sup>2 < 4 then 1 else 0)"
proof (cases "cmod c < 2")
  case True
  then show ?thesis
    using cmod_less_2_iff [of c] by (simp add: get_colour_def recursion_once)
next
  case False
  then show ?thesis
    using cmod_less_2_iff [of c] by (simp add: get_colour_def)
qed

text \<open>
  Inside the disc and with at least one iteration, the intensity is the piecewise function
  of the final magnitude (over the reals, where a magnitude is always a number).
\<close>

lemma get_colour_inside_disc:
  assumes "cmod c < 2" "1 \<le> N"
  shows "get_colour c N f =
           Inr (let m = cmod (iterate_rule f c (nat N) 0)
                in if m \<le> 2 then 1 else exp (- 0.01 * (m - 2)))"
  using assms by (simp add: get_colour_def recursion_def Let_def)


subsection \<open>Viewport mapping\<close>








lemma pixel_coords_4_4:
  "step_pixel_to_complex_coords u v 4 4 0 0 =
     Inr (Complex (real_of_int u - 3 / 2) (3 / 2 - real_of_int v))"
  by (simp add: step_pixel_to_complex_coords_def py_div_def Let_def)

subsection \<open>Frame generation\<close>


lemma upto_0_3: "[0..3::int] = [0, 1, 2, 3]"
  by (simp add: upto.simps)


lemma image_vals_4_4:
  "step_get_image_vals 0 4 4 0 1 mandlebrot_f =
     Inr [[0, 1, 1, 0], [1, 1, 1, 1], [1, 1, 1, 1], [0, 1, 1, 0]]"
  by (simp add: step_get_image_vals_def upto_0_3 pixel_coords_4_4 get_colour_once
      power2_eq_square)


subsection \<open>Zoom sequencing\<close>

text \<open>From step 1 on, a run without recentering frames renders around the supplied focus.\<close>

lemma zoom_in_step_no_recentering_later:
  assumes "res_x mod 2 = 0" "res_y mod 2 = 0" "2 < res_x" "2 < res_y" "1 \<le> step"
  shows "zoom_in_step step focus res_x res_y num_frames 0 N =
           step_get_image_vals step res_x res_y focus N mandlebrot_f"
  using assms by (simp add: zoom_in_step_def)

section \<open>The claims\<close>

subsection \<open>C1: a run without recentering frames\<close>

text \<open>
  C1 says that with \<^verbatim>\<open>recentering_steps = 0\<close> the recentering phase is skipped at every
  step and no division by zero occurs. The guard of phase 1 is \<^verbatim>\<open>step <= recentering_steps\<close>,
  which step 0 passes: the first frame of such a run divides \<^verbatim>\<open>focus * 0\<close> by zero.
\<close>

theorem zoom_in_step_no_recentering_first_frame:
  "zoom_in_step 0 focus 4 4 num_frames 0 N = Inl ZeroDivisionError"
  by (simp add: zoom_in_step_def py_cdiv_def)

subsection \<open>C2: a non-positive iteration count\<close>




subsection \<open>C3: the 4 by 4 scenario\<close>

text \<open>
  C3 as stated fails at the four corner pixels: pixel \<open>(0, 0)\<close> maps to \<open>-1.5 + 1.5i\<close>, whose
  magnitude exceeds 2, and the early exit gives it 0, not the exponential falloff value.
\<close>

theorem scenario_corner_pixel:
  "step_pixel_to_complex_coords 0 0 4 4 0 0 = Inr (Complex (- 3 / 2) (3 / 2)) \<and>
   2 < cmod (Complex (- 3 / 2) (3 / 2)) \<and>
   get_colour (Complex (- 3 / 2) (3 / 2)) 1 mandlebrot_f = Inr 0 \<and>
   (0::real) \<noteq> exp (- 0.01 * (cmod (Complex (- 3 / 2) (3 / 2)) - 2))"
proof -
  have "sqrt 4 < sqrt ((- 3 / 2)\<^sup>2 + (3 / 2)\<^sup>2)"
    by (simp only: real_sqrt_less_iff) (simp add: power2_eq_square)
  then have "2 < cmod (Complex (- 3 / 2) (3 / 2))"
    by (simp add: cmod_def)
  then show ?thesis
    by (simp add: pixel_coords_4_4 get_colour_once power2_eq_square)
qed

text \<open>
  C3, amended: in the scenario resolution \<open>(4, 4)\<close>, \<open>N = 1\<close>, focus 0, step 0, pixel \<open>(u, v)\<close>
  maps to \<open>c = (u - 1.5) + (1.5 - v) i\<close>, one iteration of the default rule ends in \<open>c\<close>, and
  the intensity is 1 where \<open>|c| < 2\<close> and 0 where \<open>|c| \<ge> 2\<close>; the frame has 0 in its four
  corners and 1 in its twelve other cells.
\<close>

theorem scenario_4_4:
  "(\<forall>u \<in> {0..3}. \<forall>v \<in> {0..3}.
      step_pixel_to_complex_coords u v 4 4 0 0
        = Inr (Complex (real_of_int u - 3 / 2) (3 / 2 - real_of_int v)) \<and>
      recursion (Complex (real_of_int u - 3 / 2) (3 / 2 - real_of_int v)) 1 mandlebrot_f
        = Inr (Complex (real_of_int u - 3 / 2) (3 / 2 - real_of_int v)) \<and>
      get_colour (Complex (real_of_int u - 3 / 2) (3 / 2 - real_of_int v)) 1 mandlebrot_f
        = Inr (if cmod (Complex (real_of_int u - 3 / 2) (3 / 2 - real_of_int v)) < 2
               then 1 else 0)) \<and>
   step_get_image_vals 0 4 4 0 1 mandlebrot_f =
     Inr [[0, 1, 1, 0], [1, 1, 1, 1], [1, 1, 1, 1], [0, 1, 1, 0]]"
  by (simp add: pixel_coords_4_4 recursion_once get_colour_once cmod_less_2_iff image_vals_4_4)

theorem scenario_4_4_witness:
  "(1::int) \<in> {0..3} \<and> (2::int) \<in> {0..3} \<and>
   step_pixel_to_complex_coords 1 2 4 4 0 0 = Inr (Complex (- 1 / 2) (- 1 / 2)) \<and>
   get_colour (Complex (- 1 / 2) (- 1 / 2)) 1 mandlebrot_f = Inr 1"
proof -
  have u: "(1::int) \<in> {0..3}" and v: "(2::int) \<in> {0..3}"
    by simp_all
  have lt: "cmod (Complex (- 1 / 2) (- 1 / 2)) < 2"
    by (simp add: cmod_less_2_iff power2_eq_square)
  from scenario_4_4 have
    "\<forall>u \<in> {0..3}. \<forall>v \<in> {0..3}.
      step_pixel_to_complex_coords u v 4 4 0 0
        = Inr (Complex (real_of_int u - 3 / 2) (3 / 2 - real_of_int v)) \<and>
      recursion (Complex (real_of_int u - 3 / 2) (3 / 2 - real_of_int v)) 1 mandlebrot_f
        = Inr (Complex (real_of_int u - 3 / 2) (3 / 2 - real_of_int v)) \<and>
      get_colour (Complex (real_of_int u - 3 / 2) (3 / 2 - real_of_int v)) 1 mandlebrot_f
        = Inr (if cmod (Complex (real_of_int u - 3 / 2) (3 / 2 - real_of_int v)) < 2
               then 1 else 0)"
    by (rule conjunct1)
  from bspec [OF bspec [OF this u] v] lt u v show ?thesis
    by simp
qed

subsection \<open>C4: resolution validation\<close>

text \<open>
  C4 as stated fails for the viewport mapper: \<^verbatim>\<open>step_pixel_to_complex_coords\<close> has no
  check of the resolution, and maps a pixel of the odd resolution \<open>(3, 4)\<close>.
\<close>

theorem pixel_coords_odd_resolution:
  "step_pixel_to_complex_coords 0 0 3 4 0 0 = Inr (Complex (- 4 / 3) 2)"
  by (simp add: step_pixel_to_complex_coords_def py_div_def)

text \<open>
  C4, amended: a resolution with an odd dimension or a dimension of at most 2 fails in
  \<^verbatim>\<open>zoom_in_step\<close> with \<^verbatim>\<open>ValueError\<close>, for every step, focus and iteration count,
  before any pixel is mapped.
\<close>

theorem zoom_in_step_invalid_resolution:
  assumes "res_x mod 2 = 1 \<or> res_y mod 2 = 1 \<or> res_x \<le> 2 \<or> res_y \<le> 2"
  shows "zoom_in_step step focus res_x res_y num_frames recentering_steps N = Inl ValueError"
  using assms by (simp add: zoom_in_step_def)

theorem zoom_in_step_invalid_resolution_witness:
  "(3::int) mod 2 = 1 \<and> zoom_in_step 0 0 3 4 20 5 10 = Inl ValueError"
  using zoom_in_step_invalid_resolution [of 3 4 0 0 20 5 10] by simp

subsection \<open>C5: the early exit\<close>



subsection \<open>C6: the intensity of a point inside the disc\<close>

text \<open>
  C6 speaks of a not-a-number magnitude and of the value of \<^verbatim>\<open>np.exp\<close> lying strictly
  between 0 and 1 and strictly decreasing. Both are facts about binary floating point:
  the reals of this embedding have no not-a-number, and whether \<^verbatim>\<open>np.exp\<close> of a finite
  negative float is 0, 1 or in between is decided by rounding and underflow. The claim
  has no theorem here; \<open>get_colour_inside_disc\<close> above records the piecewise mapping over
  the reals.
\<close>

subsection \<open>C7: the pixel width and the zoom\<close>



subsection \<open>C8: the viewport is centred on the focus\<close>



subsection \<open>C9: the intensity grid\<close>



subsection \<open>C10: the divisions of the viewport mapping\<close>



end
